theory Spec2Isabelle
  imports Main
begin

section \<open>The trace logging facade\<close>

text \<open>
  The package wraps the zap logging engine.  The repository holds two snapshots of the
  package side by side: an older one (\<^verbatim>\<open>interface.go\<close> and the second half of
  \<^verbatim>\<open>logger.go\<close>, with the exported \<^verbatim>\<open>SugarLogger\<close>, the field helpers and
  \<^verbatim>\<open>formatError\<close>) and a newer one (the first half of \<^verbatim>\<open>logger.go\<close>, the
  interface with \<^verbatim>\<open>With\<close> and \<^verbatim>\<open>Named\<close>, and the default-logger file without a
  name).  Where both snapshots define a function, both are embedded, the second under a
  suffixed name.
\<close>

subsection \<open>Strings and errors of the Go standard library\<close>

text \<open>
  A Go string is a sequence of bytes, as \<^typ>\<open>string\<close> is.  The two characters the
  formatting rule is about are single bytes, and no byte of a multi-byte UTF-8 sequence
  equals either of them.
\<close>

definition newline :: char where
  "newline = CHR 0x0A"

definition tab :: char where
  "tab = CHR 0x09"

text \<open>
  \<^verbatim>\<open>utf8.DecodeRuneInString\<close> tells how many bytes the first UTF-8 sequence of a
  string takes: the size announced by the first byte if the bytes after it are there and
  in the ranges the encoding accepts, and one byte for ASCII and for everything that is
  not a well-formed sequence.
\<close>

definition rune_width :: "string \<Rightarrow> nat" where
  "rune_width s =
     (case map of_char s of
        [] \<Rightarrow> 0
      | b0 # bs \<Rightarrow>
          (let sz = (if (0xC2::nat) \<le> b0 \<and> b0 \<le> 0xDF then 2
                     else if 0xE0 \<le> b0 \<and> b0 \<le> 0xEF then 3
                     else if 0xF0 \<le> b0 \<and> b0 \<le> 0xF4 then 4
                     else (1::nat));
               lo = (if b0 = 0xE0 then 0xA0 else if b0 = 0xF0 then 0x90 else 0x80);
               hi = (if b0 = 0xED then 0x9F else if b0 = 0xF4 then 0x8F else 0xBF)
           in if sz = 1 then 1
              else if length s < sz then 1
              else if \<not> (lo \<le> bs ! 0 \<and> bs ! 0 \<le> hi) then 1
              else if sz = 2 then 2
              else if \<not> (0x80 \<le> bs ! 1 \<and> bs ! 1 \<le> 0xBF) then 1
              else if sz = 3 then 3
              else if \<not> (0x80 \<le> bs ! 2 \<and> bs ! 2 \<le> 0xBF) then 1
              else 4))"

text \<open>
  \<^verbatim>\<open>strings.ReplaceAll(s, old, new)\<close> replaces the non-overlapping occurrences of
  \<^verbatim>\<open>old\<close>, scanning from the left.  With an empty \<^verbatim>\<open>old\<close> it puts \<^verbatim>\<open>new\<close>
  before every UTF-8 sequence and at the end.
\<close>

function strings_ReplaceAll :: "string \<Rightarrow> string \<Rightarrow> string \<Rightarrow> string" where
  "strings_ReplaceAll s old new =
     (if old = [] then
        (if s = [] then new
         else new @ take (rune_width s) s
                @ strings_ReplaceAll (drop (rune_width s) s) old new)
      else if s = [] then []
      else if take (length old) s = old
        then new @ strings_ReplaceAll (drop (length old) s) old new
      else hd s # strings_ReplaceAll (tl s) old new)"
  by pat_completeness auto
termination
proof (relation "measure (\<lambda>(s, old, new). length s)")
  fix s old new :: string
  assume "s \<noteq> []"
  then have "0 < rune_width s"
    by (cases s) (simp_all add: rune_width_def Let_def)
  with \<open>s \<noteq> []\<close>
  show "((drop (rune_width s) s, old, new), s, old, new)
          \<in> measure (\<lambda>(s, old, new). length s)"
    by simp
qed auto

declare strings_ReplaceAll.simps [simp del]

text \<open>
  An \<^verbatim>\<open>error\<close> is an interface value: absent (\<^verbatim>\<open>nil\<close>, \<^term>\<open>None\<close> below) or a
  value whose \<^verbatim>\<open>Error()\<close> method renders a message.  The two implementations of the
  standard library that the tests use are \<^verbatim>\<open>errors.New\<close> and \<^verbatim>\<open>errors.Join\<close>; the
  latter separates the messages of its parts by newlines.
\<close>

datatype error = errorString string | joinError "error list"

fun error_Error :: "error \<Rightarrow> string"
  and joinError_Error :: "error list \<Rightarrow> string" where
  "error_Error (errorString s) = s"
| "error_Error (joinError es) = joinError_Error es"
| "joinError_Error [] = []"
| "joinError_Error [e] = error_Error e"
| "joinError_Error (e # e' # es) = error_Error e @ [newline] @ joinError_Error (e' # es)"

subsection \<open>Fields\<close>

text \<open>
  Modelled from the spec: the type \<^verbatim>\<open>zap.Field\<close> and its constructors belong to the
  engine, which is not part of the repository.  A field is a typed key/value pair whose
  value is a string, an integer or a boolean; it is laid out as the engine's struct, a
  key, a type tag and the value in the slot that the tag selects.
\<close>

datatype FieldType = BoolType | Int64Type | StringType

record Field =
  Key :: string
  Type :: FieldType
  Integer :: int
  String :: string

definition zap_String :: "string \<Rightarrow> string \<Rightarrow> Field" where
  "zap_String key val = \<lparr>Key = key, Type = StringType, Integer = 0, String = val\<rparr>"

definition zap_Int :: "string \<Rightarrow> int \<Rightarrow> Field" where
  "zap_Int key val = \<lparr>Key = key, Type = Int64Type, Integer = val, String = []\<rparr>"

definition zap_Bool :: "string \<Rightarrow> bool \<Rightarrow> Field" where
  "zap_Bool key val =
     \<lparr>Key = key, Type = BoolType, Integer = (if val then 1 else 0), String = []\<rparr>"


definition Int_field :: "string \<Rightarrow> int \<Rightarrow> Field" where
  "Int_field key val = zap_Int key val"

definition Bool :: "string \<Rightarrow> bool \<Rightarrow> Field" where
  "Bool key val = zap_Bool key val"

definition formatError :: "error option \<Rightarrow> string" where
  "formatError err =
     (case err of
        None \<Rightarrow> []
      | Some e \<Rightarrow>
          strings_ReplaceAll (strings_ReplaceAll (error_Error e) [newline] '' | '')
            [tab] '' | '')"

definition Err :: "error option \<Rightarrow> Field" where
  "Err err =
     (case err of
        None \<Rightarrow> zap_String ''error'' []
      | Some e \<Rightarrow> zap_String ''error'' (formatError (Some e)))"

text \<open>
  The rule of the specification, in its own words: every newline and every tab becomes
  the separator, every other byte stays.
\<close>

definition spec_single_line :: "string \<Rightarrow> string" where
  "spec_single_line s =
     concat (map (\<lambda>c. if c = newline \<or> c = tab then '' | '' else [c]) s)"

subsection \<open>The engine\<close>

text \<open>
  Modelled from the spec: the engine (zap), which is not part of the repository; the
  package only forwards to it.  An engine instance has a name, sinks, a minimum level and
  the fields attached so far.  A leveled call appends one record to every sink if the
  level is enabled, with the attached fields before the supplied ones; \<^verbatim>\<open>Fatal\<close>
  then terminates the process.  \<^verbatim>\<open>With\<close> and \<^verbatim>\<open>Named\<close> leave the instance they
  are called on as it is and build a copy with more fields or one more name segment.
  The inert instance of \<^verbatim>\<open>zap.NewNop\<close> has no sink and no enabled level.  The
  levels are the engine's numbers, the disabled level is 127.
\<close>

definition DebugLevel :: int where "DebugLevel = - 1"
definition InfoLevel :: int where "InfoLevel = 0"
definition WarnLevel :: int where "WarnLevel = 1"
definition ErrorLevel :: int where "ErrorLevel = 2"
definition FatalLevel :: int where "FatalLevel = 5"

definition DisabledLevel :: int where
  "DisabledLevel = 127"

record Entry =
  Level :: int
  LoggerName :: string
  Message :: string
  Fields :: "Field list"

datatype Core = nopCore | ioCore "nat list" int "Field list"

fun Core_Enabled :: "Core \<Rightarrow> int \<Rightarrow> bool" where
  "Core_Enabled nopCore lvl = False"
| "Core_Enabled (ioCore sinks minLevel ctx) lvl = (minLevel \<le> lvl)"

fun Core_With :: "Core \<Rightarrow> Field list \<Rightarrow> Core" where
  "Core_With nopCore fs = nopCore"
| "Core_With (ioCore sinks minLevel ctx) fs = ioCore sinks minLevel (ctx @ fs)"

fun Core_Write :: "Core \<Rightarrow> Entry \<Rightarrow> (nat \<times> Entry) list" where
  "Core_Write nopCore ent = []"
| "Core_Write (ioCore sinks minLevel ctx) ent =
     map (\<lambda>sink. (sink, ent\<lparr>Fields := ctx @ Fields ent\<rparr>)) sinks"


record zap_Logger =
  zap_name :: string
  zap_core :: Core

subsection \<open>Loggers and the state of the process\<close>

text \<open>
  \<^verbatim>\<open>sugarLogger\<close> (\<^verbatim>\<open>SugarLogger\<close> in the older snapshot) is a struct of one
  pointer to an engine instance.  Pointers are addresses into a heap, a list that
  allocation extends at its end; \<^term>\<open>None\<close> is the nil pointer.
\<close>

type_synonym addr = nat

record sugarLogger =
  Log :: "addr option"

text \<open>
  A \<^verbatim>\<open>Logger\<close> is an interface value: nil, a pointer to a \<^verbatim>\<open>NoopLogger\<close> or a
  pointer to a \<^verbatim>\<open>sugarLogger\<close>, which may itself be a nil pointer inside a non-nil
  interface.  These are the two implementations of the package; implementations written
  elsewhere are not part of the model.  \<^verbatim>\<open>NoopLogger\<close> is an empty struct and none
  of its methods reads the receiver, so its pointers are one value here.
\<close>

datatype Logger = nil | NoopLogger_ptr | sugarLogger_ptr "addr option"

record world =
  zapHeap :: "zap_Logger list"
  sugarHeap :: "sugarLogger list"
  written :: "(nat \<times> Entry) list"
  defaultLogger :: Logger

text \<open>
  A call that does not return: a panic of the runtime on a nil pointer, a panic raised
  by a library, or the exit of the process in the state it had reached.  An address
  outside the heap does not occur in a Go program; reading one is reported rather than
  left unspecified.
\<close>

datatype abort = nil_dereference | dangling_address | panic string | os_Exit world

definition deref :: "'a list \<Rightarrow> addr option \<Rightarrow> abort + 'a" where
  "deref heap p =
     (case p of
        None \<Rightarrow> Inl nil_dereference
      | Some a \<Rightarrow> if a < length heap then Inr (heap ! a) else Inl dangling_address)"

definition new_zap_Logger :: "world \<Rightarrow> zap_Logger \<Rightarrow> addr \<times> world" where
  "new_zap_Logger w z = (length (zapHeap w), w\<lparr>zapHeap := zapHeap w @ [z]\<rparr>)"

definition new_sugarLogger :: "world \<Rightarrow> sugarLogger \<Rightarrow> addr \<times> world" where
  "new_sugarLogger w s = (length (sugarHeap w), w\<lparr>sugarHeap := sugarHeap w @ [s]\<rparr>)"

text \<open>
  Modelled from the spec: the operations of the engine on the heap of its instances,
  \<^verbatim>\<open>zap.NewNop\<close>, the leveled calls (\<^verbatim>\<open>zap_log\<close> with the level of the method),
  \<^verbatim>\<open>With\<close> and \<^verbatim>\<open>Named\<close>.  The two last return the instance itself when there
  is nothing to add.
\<close>

definition zap_NewNop :: "world \<Rightarrow> addr \<times> world" where
  "zap_NewNop w = new_zap_Logger w \<lparr>zap_name = [], zap_core = nopCore\<rparr>"

definition zap_log :: "world \<Rightarrow> addr option \<Rightarrow> int \<Rightarrow> string \<Rightarrow> Field list \<Rightarrow> abort + world" where
  "zap_log w p lvl msg fs =
     (case deref (zapHeap w) p of
        Inl stop \<Rightarrow> Inl stop
      | Inr z \<Rightarrow>
          (let ent = \<lparr>Level = lvl, LoggerName = zap_name z, Message = msg, Fields = fs\<rparr>;
               w' = (if Core_Enabled (zap_core z) lvl
                     then w\<lparr>written := written w @ Core_Write (zap_core z) ent\<rparr>
                     else w)
           in if lvl = FatalLevel then Inl (os_Exit w') else Inr w'))"

definition zap_With :: "world \<Rightarrow> addr option \<Rightarrow> Field list \<Rightarrow> abort + addr \<times> world" where
  "zap_With w p fs =
     (case p of
        None \<Rightarrow> Inl nil_dereference
      | Some a \<Rightarrow>
          (case deref (zapHeap w) (Some a) of
             Inl stop \<Rightarrow> Inl stop
           | Inr z \<Rightarrow>
               if fs = [] then Inr (a, w)
               else Inr (new_zap_Logger w (z\<lparr>zap_core := Core_With (zap_core z) fs\<rparr>))))"

definition zap_Named :: "world \<Rightarrow> addr option \<Rightarrow> string \<Rightarrow> abort + addr \<times> world" where
  "zap_Named w p s =
     (case p of
        None \<Rightarrow> Inl nil_dereference
      | Some a \<Rightarrow>
          (case deref (zapHeap w) (Some a) of
             Inl stop \<Rightarrow> Inl stop
           | Inr z \<Rightarrow>
               if s = [] then Inr (a, w)
               else Inr (new_zap_Logger w
                      (z\<lparr>zap_name := (if zap_name z = [] then s else zap_name z @ ''.'' @ s)\<rparr>))))"

subsection \<open>The no-op logger\<close>

text \<open>The five leveled methods have empty bodies in both snapshots.\<close>

definition NoopLogger_Debug :: "world \<Rightarrow> string \<Rightarrow> Field list \<Rightarrow> abort + world" where
  "NoopLogger_Debug w msg fs = Inr w"

definition NoopLogger_Info :: "world \<Rightarrow> string \<Rightarrow> Field list \<Rightarrow> abort + world" where
  "NoopLogger_Info w msg fs = Inr w"

definition NoopLogger_Warn :: "world \<Rightarrow> string \<Rightarrow> Field list \<Rightarrow> abort + world" where
  "NoopLogger_Warn w msg fs = Inr w"

definition NoopLogger_Error :: "world \<Rightarrow> string \<Rightarrow> Field list \<Rightarrow> abort + world" where
  "NoopLogger_Error w msg fs = Inr w"

definition NoopLogger_Fatal :: "world \<Rightarrow> string \<Rightarrow> Field list \<Rightarrow> abort + world" where
  "NoopLogger_Fatal w msg fs = Inr w"

text \<open>\<^verbatim>\<open>Zap\<close> of \<^verbatim>\<open>interface.go\<close>: "Zap returns nil for the underlying zap logger".\<close>

definition NoopLogger_Zap :: "world \<Rightarrow> abort + addr option \<times> world" where
  "NoopLogger_Zap w = Inr (None, w)"

text \<open>
  \<^verbatim>\<open>Zap\<close> of the newer interface file (the one with \<^verbatim>\<open>With\<close> and \<^verbatim>\<open>Named\<close>):
  every call builds an inert engine instance.  \<^verbatim>\<open>With\<close> and \<^verbatim>\<open>Named\<close> return the
  receiver.
\<close>

definition NoopLogger_Zap_NewNop :: "world \<Rightarrow> abort + addr option \<times> world" where
  "NoopLogger_Zap_NewNop w = (case zap_NewNop w of (a, w') \<Rightarrow> Inr (Some a, w'))"

definition NoopLogger_With :: "world \<Rightarrow> Field list \<Rightarrow> abort + Logger \<times> world" where
  "NoopLogger_With w fs = Inr (NoopLogger_ptr, w)"

definition NoopLogger_Named :: "world \<Rightarrow> string \<Rightarrow> abort + Logger \<times> world" where
  "NoopLogger_Named w name = Inr (NoopLogger_ptr, w)"

definition NewNoopLogger :: Logger where
  "NewNoopLogger = NoopLogger_ptr"

subsection \<open>The concrete logger\<close>

text \<open>
  The methods of \<^verbatim>\<open>sugarLogger\<close> (first half of \<^verbatim>\<open>logger.go\<close>).  The receiver
  \<^verbatim>\<open>l\<close> is a pointer; reading \<^verbatim>\<open>l.Log\<close> dereferences it.
\<close>

definition sugarLogger_Debug :: "world \<Rightarrow> addr option \<Rightarrow> string \<Rightarrow> Field list \<Rightarrow> abort + world" where
  "sugarLogger_Debug w l msg fs =
     (case deref (sugarHeap w) l of
        Inl stop \<Rightarrow> Inl stop
      | Inr s \<Rightarrow> if Log s \<noteq> None then zap_log w (Log s) DebugLevel msg fs else Inr w)"

definition sugarLogger_Info :: "world \<Rightarrow> addr option \<Rightarrow> string \<Rightarrow> Field list \<Rightarrow> abort + world" where
  "sugarLogger_Info w l msg fs =
     (case deref (sugarHeap w) l of
        Inl stop \<Rightarrow> Inl stop
      | Inr s \<Rightarrow> if Log s \<noteq> None then zap_log w (Log s) InfoLevel msg fs else Inr w)"

definition sugarLogger_Warn :: "world \<Rightarrow> addr option \<Rightarrow> string \<Rightarrow> Field list \<Rightarrow> abort + world" where
  "sugarLogger_Warn w l msg fs =
     (case deref (sugarHeap w) l of
        Inl stop \<Rightarrow> Inl stop
      | Inr s \<Rightarrow> if Log s \<noteq> None then zap_log w (Log s) WarnLevel msg fs else Inr w)"

definition sugarLogger_Error :: "world \<Rightarrow> addr option \<Rightarrow> string \<Rightarrow> Field list \<Rightarrow> abort + world" where
  "sugarLogger_Error w l msg fs =
     (case deref (sugarHeap w) l of
        Inl stop \<Rightarrow> Inl stop
      | Inr s \<Rightarrow> if Log s \<noteq> None then zap_log w (Log s) ErrorLevel msg fs else Inr w)"

definition sugarLogger_Fatal :: "world \<Rightarrow> addr option \<Rightarrow> string \<Rightarrow> Field list \<Rightarrow> abort + world" where
  "sugarLogger_Fatal w l msg fs =
     (case deref (sugarHeap w) l of
        Inl stop \<Rightarrow> Inl stop
      | Inr s \<Rightarrow> if Log s \<noteq> None then zap_log w (Log s) FatalLevel msg fs else Inr w)"

definition sugarLogger_With :: "world \<Rightarrow> addr option \<Rightarrow> Field list \<Rightarrow> abort + Logger \<times> world" where
  "sugarLogger_With w l fs =
     (if l = None then Inr (sugarLogger_ptr l, w)
      else case deref (sugarHeap w) l of
        Inl stop \<Rightarrow> Inl stop
      | Inr s \<Rightarrow>
          if Log s = None then Inr (sugarLogger_ptr l, w)
          else (case zap_With w (Log s) fs of
                  Inl stop \<Rightarrow> Inl stop
                | Inr (z, w') \<Rightarrow>
                    (case new_sugarLogger w' \<lparr>Log = Some z\<rparr> of
                       (a, w'') \<Rightarrow> Inr (sugarLogger_ptr (Some a), w''))))"


definition sugarLogger_Zap :: "world \<Rightarrow> addr option \<Rightarrow> abort + addr option \<times> world" where
  "sugarLogger_Zap w l =
     (case deref (sugarHeap w) l of
        Inl stop \<Rightarrow> Inl stop
      | Inr s \<Rightarrow> Inr (Log s, w))"

text \<open>The methods of the exported \<^verbatim>\<open>SugarLogger\<close> (second half of \<^verbatim>\<open>logger.go\<close>).\<close>

definition SugarLogger_Debug :: "world \<Rightarrow> addr option \<Rightarrow> string \<Rightarrow> Field list \<Rightarrow> abort + world" where
  "SugarLogger_Debug w l msg fs =
     (case deref (sugarHeap w) l of
        Inl stop \<Rightarrow> Inl stop
      | Inr s \<Rightarrow> if Log s \<noteq> None then zap_log w (Log s) DebugLevel msg fs else Inr w)"

definition SugarLogger_Info :: "world \<Rightarrow> addr option \<Rightarrow> string \<Rightarrow> Field list \<Rightarrow> abort + world" where
  "SugarLogger_Info w l msg fs =
     (case deref (sugarHeap w) l of
        Inl stop \<Rightarrow> Inl stop
      | Inr s \<Rightarrow> if Log s \<noteq> None then zap_log w (Log s) InfoLevel msg fs else Inr w)"

definition SugarLogger_Warn :: "world \<Rightarrow> addr option \<Rightarrow> string \<Rightarrow> Field list \<Rightarrow> abort + world" where
  "SugarLogger_Warn w l msg fs =
     (case deref (sugarHeap w) l of
        Inl stop \<Rightarrow> Inl stop
      | Inr s \<Rightarrow> if Log s \<noteq> None then zap_log w (Log s) WarnLevel msg fs else Inr w)"

definition SugarLogger_Error :: "world \<Rightarrow> addr option \<Rightarrow> string \<Rightarrow> Field list \<Rightarrow> abort + world" where
  "SugarLogger_Error w l msg fs =
     (case deref (sugarHeap w) l of
        Inl stop \<Rightarrow> Inl stop
      | Inr s \<Rightarrow> if Log s \<noteq> None then zap_log w (Log s) ErrorLevel msg fs else Inr w)"

definition SugarLogger_Fatal :: "world \<Rightarrow> addr option \<Rightarrow> string \<Rightarrow> Field list \<Rightarrow> abort + world" where
  "SugarLogger_Fatal w l msg fs =
     (case deref (sugarHeap w) l of
        Inl stop \<Rightarrow> Inl stop
      | Inr s \<Rightarrow> if Log s \<noteq> None then zap_log w (Log s) FatalLevel msg fs else Inr w)"

definition SugarLogger_Zap :: "world \<Rightarrow> addr option \<Rightarrow> abort + addr option \<times> world" where
  "SugarLogger_Zap w l =
     (case deref (sugarHeap w) l of
        Inl stop \<Rightarrow> Inl stop
      | Inr s \<Rightarrow> Inr (Log s, w))"

subsection \<open>Calls through the interface\<close>

text \<open>
  A method call on a \<^verbatim>\<open>Logger\<close> runs the method of the type inside; on the nil
  interface it panics.  The leveled methods of the two concrete types are the same text,
  so one dispatch serves both snapshots.
\<close>

definition Logger_Debug :: "world \<Rightarrow> Logger \<Rightarrow> string \<Rightarrow> Field list \<Rightarrow> abort + world" where
  "Logger_Debug w logger msg fs =
     (case logger of
        nil \<Rightarrow> Inl nil_dereference
      | NoopLogger_ptr \<Rightarrow> NoopLogger_Debug w msg fs
      | sugarLogger_ptr l \<Rightarrow> SugarLogger_Debug w l msg fs)"

definition Logger_Info :: "world \<Rightarrow> Logger \<Rightarrow> string \<Rightarrow> Field list \<Rightarrow> abort + world" where
  "Logger_Info w logger msg fs =
     (case logger of
        nil \<Rightarrow> Inl nil_dereference
      | NoopLogger_ptr \<Rightarrow> NoopLogger_Info w msg fs
      | sugarLogger_ptr l \<Rightarrow> SugarLogger_Info w l msg fs)"

definition Logger_Warn :: "world \<Rightarrow> Logger \<Rightarrow> string \<Rightarrow> Field list \<Rightarrow> abort + world" where
  "Logger_Warn w logger msg fs =
     (case logger of
        nil \<Rightarrow> Inl nil_dereference
      | NoopLogger_ptr \<Rightarrow> NoopLogger_Warn w msg fs
      | sugarLogger_ptr l \<Rightarrow> SugarLogger_Warn w l msg fs)"

definition Logger_Error :: "world \<Rightarrow> Logger \<Rightarrow> string \<Rightarrow> Field list \<Rightarrow> abort + world" where
  "Logger_Error w logger msg fs =
     (case logger of
        nil \<Rightarrow> Inl nil_dereference
      | NoopLogger_ptr \<Rightarrow> NoopLogger_Error w msg fs
      | sugarLogger_ptr l \<Rightarrow> SugarLogger_Error w l msg fs)"

definition Logger_Fatal :: "world \<Rightarrow> Logger \<Rightarrow> string \<Rightarrow> Field list \<Rightarrow> abort + world" where
  "Logger_Fatal w logger msg fs =
     (case logger of
        nil \<Rightarrow> Inl nil_dereference
      | NoopLogger_ptr \<Rightarrow> NoopLogger_Fatal w msg fs
      | sugarLogger_ptr l \<Rightarrow> SugarLogger_Fatal w l msg fs)"

text \<open>
  \<^verbatim>\<open>Zap\<close> through the interface, in the snapshot that has \<^verbatim>\<open>NewChildLogger\<close> and
  the context helpers.
\<close>

definition Logger_Zap :: "world \<Rightarrow> Logger \<Rightarrow> abort + addr option \<times> world" where
  "Logger_Zap w logger =
     (case logger of
        nil \<Rightarrow> Inl nil_dereference
      | NoopLogger_ptr \<Rightarrow> NoopLogger_Zap_NewNop w
      | sugarLogger_ptr l \<Rightarrow> sugarLogger_Zap w l)"

definition NewChildLogger :: "world \<Rightarrow> Logger \<Rightarrow> string \<Rightarrow> abort + Logger \<times> world" where
  "NewChildLogger w parent prefix =
     (if parent = nil then Inr (NewNoopLogger, w)
      else case Logger_Zap w parent of
        Inl stop \<Rightarrow> Inl stop
      | Inr (z, w1) \<Rightarrow>
          if z = None then Inr (NewNoopLogger, w1)
          else if prefix \<noteq> [] then
            (case Logger_Zap w1 parent of
               Inl stop \<Rightarrow> Inl stop
             | Inr (z2, w2) \<Rightarrow>
                 (case zap_Named w2 z2 prefix of
                    Inl stop \<Rightarrow> Inl stop
                  | Inr (z3, w3) \<Rightarrow>
                      (case new_sugarLogger w3 \<lparr>Log = Some z3\<rparr> of
                         (a, w4) \<Rightarrow> Inr (sugarLogger_ptr (Some a), w4))))
          else
            (case Logger_Zap w1 parent of
               Inl stop \<Rightarrow> Inl stop
             | Inr (z2, w2) \<Rightarrow>
                 (case new_sugarLogger w2 \<lparr>Log = z2\<rparr> of
                    (a, w3) \<Rightarrow> Inr (sugarLogger_ptr (Some a), w3))))"

subsection \<open>The default logger\<close>

text \<open>
  The package variable \<^verbatim>\<open>defaultLogger\<close> is a field of \<^typ>\<open>world\<close>.  At the start
  of the process nothing is allocated and nothing is written; \<^verbatim>\<open>interface.go\<close>
  initialises the variable with \<^verbatim>\<open>&NoopLogger{}\<close>, the file without a name with
  \<^verbatim>\<open>NewNoopLogger()\<close>.
\<close>

definition process_start :: world where
  "process_start =
     \<lparr>zapHeap = [], sugarHeap = [], written = [], defaultLogger = NoopLogger_ptr\<rparr>"

definition process_start_part_000 :: world where
  "process_start_part_000 =
     \<lparr>zapHeap = [], sugarHeap = [], written = [], defaultLogger = NewNoopLogger\<rparr>"

text \<open>\<^verbatim>\<open>interface.go\<close>\<close>

definition SetDefaultLogger :: "world \<Rightarrow> Logger \<Rightarrow> world" where
  "SetDefaultLogger w logger =
     (if logger \<noteq> nil then w\<lparr>defaultLogger := logger\<rparr>
      else w\<lparr>defaultLogger := NoopLogger_ptr\<rparr>)"

definition GetDefaultLogger :: "world \<Rightarrow> Logger" where
  "GetDefaultLogger w = defaultLogger w"

text \<open>\<^verbatim>\<open>unnamed/part_000\<close>\<close>

definition SetDefaultLogger_part_000 :: "world \<Rightarrow> Logger \<Rightarrow> world" where
  "SetDefaultLogger_part_000 w logger = w\<lparr>defaultLogger := logger\<rparr>"

definition GetDefaultLogger_part_000 :: "world \<Rightarrow> Logger" where
  "GetDefaultLogger_part_000 w = defaultLogger w"

text \<open>The package-level functions forward to the logger in the variable.\<close>

definition Debug :: "world \<Rightarrow> string \<Rightarrow> Field list \<Rightarrow> abort + world" where
  "Debug w msg fs = Logger_Debug w (defaultLogger w) msg fs"

definition Info :: "world \<Rightarrow> string \<Rightarrow> Field list \<Rightarrow> abort + world" where
  "Info w msg fs = Logger_Info w (defaultLogger w) msg fs"

definition Warn :: "world \<Rightarrow> string \<Rightarrow> Field list \<Rightarrow> abort + world" where
  "Warn w msg fs = Logger_Warn w (defaultLogger w) msg fs"

definition Error :: "world \<Rightarrow> string \<Rightarrow> Field list \<Rightarrow> abort + world" where
  "Error w msg fs = Logger_Error w (defaultLogger w) msg fs"

definition Fatal :: "world \<Rightarrow> string \<Rightarrow> Field list \<Rightarrow> abort + world" where
  "Fatal w msg fs = Logger_Fatal w (defaultLogger w) msg fs"

subsection \<open>Loggers in a context\<close>

text \<open>
  A \<^verbatim>\<open>context.Context\<close> is nil, the background context, or a parent extended by one
  key and value.  A value is an empty-interface value: nil, a \<^verbatim>\<open>Logger\<close>, or anything
  else.  \<^verbatim>\<open>Value\<close> returns the value of the nearest matching key and nil if there is
  none; \<^verbatim>\<open>context.WithValue\<close> panics on a nil parent.  Storing a nil \<^verbatim>\<open>Logger\<close>
  stores the nil empty interface.
\<close>

datatype any = any_nil | any_Logger Logger | any_other nat

datatype ctx_key = loggerCtxKey | other_key nat

datatype Context = nil_Context | Background | valueCtx Context ctx_key any

fun Context_Value :: "Context \<Rightarrow> ctx_key \<Rightarrow> abort + any" where
  "Context_Value nil_Context key = Inl nil_dereference"
| "Context_Value Background key = Inr any_nil"
| "Context_Value (valueCtx parent k v) key =
     (if k = key then Inr v else Context_Value parent key)"

definition context_WithValue :: "Context \<Rightarrow> ctx_key \<Rightarrow> any \<Rightarrow> abort + Context" where
  "context_WithValue parent key val =
     (if parent = nil_Context then Inl (panic ''cannot create context from nil parent'')
      else Inr (valueCtx parent key val))"

definition Logger_to_any :: "Logger \<Rightarrow> any" where
  "Logger_to_any l = (if l = nil then any_nil else any_Logger l)"

definition LoggerToContext :: "Context \<Rightarrow> Logger \<Rightarrow> abort + Context" where
  "LoggerToContext ctx l = context_WithValue ctx loggerCtxKey (Logger_to_any l)"

definition LoggerFromContext :: "world \<Rightarrow> Context \<Rightarrow> abort + Logger \<times> world" where
  "LoggerFromContext w ctx =
     (case Context_Value ctx loggerCtxKey of
        Inl stop \<Rightarrow> Inl stop
      | Inr v \<Rightarrow>
          if v \<noteq> any_nil then
            (case v of
               any_Logger l \<Rightarrow>
                 if l \<noteq> nil then
                   (case Logger_Zap w l of
                      Inl stop \<Rightarrow> Inl stop
                    | Inr (z, w') \<Rightarrow>
                        if z \<noteq> None then Inr (l, w') else Inr (NewNoopLogger, w'))
                 else Inr (NewNoopLogger, w)
             | _ \<Rightarrow> Inr (NewNoopLogger, w))
          else Inr (NewNoopLogger, w))"

subsection \<open>What can be seen of a call\<close>




text \<open>
  The loggers of a running program: the nil interface, the no-op logger, and pointers
  to a logger struct in the heap whose engine handle, if it has one, points to an engine
  in the heap.  A value stored in a context is such if it is no logger or such a logger.
\<close>

definition allocated :: "world \<Rightarrow> Logger \<Rightarrow> bool" where
  "allocated w lg =
     (case lg of
        sugarLogger_ptr l \<Rightarrow>
          (case deref (sugarHeap w) l of
             Inl stop \<Rightarrow> False
           | Inr s \<Rightarrow> (case Log s of None \<Rightarrow> True | Some z \<Rightarrow> z < length (zapHeap w)))
      | _ \<Rightarrow> True)"

definition attached_allocated :: "world \<Rightarrow> any \<Rightarrow> bool" where
  "attached_allocated w v = (case v of any_Logger lg \<Rightarrow> allocated w lg | _ \<Rightarrow> True)"

text \<open>
  A state to try the functions on: at address 0 a logger named \<^verbatim>\<open>app\<close> that writes
  to sink 0 from \<^verbatim>\<open>InfoLevel\<close> on, at address 1 a zero-value logger.
\<close>

definition app_engine :: zap_Logger where
  "app_engine = \<lparr>zap_name = ''app'', zap_core = ioCore [0] InfoLevel []\<rparr>"

definition test_world :: world where
  "test_world =
     \<lparr>zapHeap = [app_engine], sugarHeap = [\<lparr>Log = Some 0\<rparr>, \<lparr>Log = None\<rparr>],
      written = [], defaultLogger = NoopLogger_ptr\<rparr>"

section \<open>Properties of the error field\<close>

lemma ReplaceAll_one_byte:
  "strings_ReplaceAll s [c] new = concat (map (\<lambda>x. if x = c then new else [x]) s)"
proof (induction s)
  case Nil
  show ?case by (simp add: strings_ReplaceAll.simps)
next
  case (Cons x xs)
  show ?case
    by (subst strings_ReplaceAll.simps) (simp add: Cons.IH)
qed

lemma ReplaceAll_absent:
  "c \<notin> set s \<Longrightarrow> strings_ReplaceAll s [c] new = s"
  by (induction s) (auto simp: ReplaceAll_one_byte)

lemma separator_bytes:
  "newline \<notin> set '' | ''" "tab \<notin> set '' | ''"
  by (simp_all add: newline_def tab_def)

lemma newline_not_tab: "newline \<noteq> tab"
  by (simp add: newline_def tab_def)

lemma formatError_spec:
  "formatError (Some e) = spec_single_line (error_Error e)"
proof -
  have "concat (map (\<lambda>x. if x = tab then '' | '' else [x])
          (concat (map (\<lambda>x. if x = newline then '' | '' else [x]) s)))
        = spec_single_line s" for s
    by (induction s) (simp_all add: spec_single_line_def tab_def newline_def)
  then show ?thesis
    by (simp add: formatError_def ReplaceAll_one_byte)
qed

lemma spec_single_line_clean:
  "newline \<notin> set (spec_single_line s)" "tab \<notin> set (spec_single_line s)"
  by (induction s) (auto simp: spec_single_line_def tab_def newline_def)

lemma spec_single_line_fixed:
  "newline \<notin> set s \<Longrightarrow> tab \<notin> set s \<Longrightarrow> spec_single_line s = s"
  by (induction s) (auto simp: spec_single_line_def)

text \<open>The joined error of \<^verbatim>\<open>TestJoinedErrorsFormatting\<close>.\<close>

lemma Err_joined_errors:
  "String (Err (Some (joinError [errorString ''TLS handshake timeout'',
       errorString ''connection error'', errorString ''handle auth callback''])))
   = ''TLS handshake timeout | connection error | handle auth callback''"
  by (simp add: Err_def formatError_spec zap_String_def spec_single_line_def newline_def tab_def)

text \<open>
  C1.  For a present error, \<^verbatim>\<open>Err\<close> yields the string field keyed \<^verbatim>\<open>"error"\<close>
  whose value is the message with every newline and every tab replaced by the separator;
  the value holds neither of the two characters.
\<close>

theorem Err_single_line:
  "Err (Some e) = zap_String ''error'' (spec_single_line (error_Error e))
   \<and> Key (Err (Some e)) = ''error''
   \<and> String (Err (Some e)) = spec_single_line (error_Error e)
   \<and> newline \<notin> set (String (Err (Some e)))
   \<and> tab \<notin> set (String (Err (Some e)))"
  by (simp add: Err_def formatError_spec zap_String_def spec_single_line_clean)

text \<open>
  C6.  For the absent error, \<^verbatim>\<open>Err\<close> yields the string field keyed \<^verbatim>\<open>"error"\<close>
  with the empty string as its value: a field is returned in every case.
\<close>

theorem Err_nil:
  "Err None = \<lparr>Key = ''error'', Type = StringType, Integer = 0, String = []\<rparr>"
  by (simp add: Err_def zap_String_def)

text \<open>
  C10.  Formatting is idempotent: a formatted message, wrapped in an error again and
  formatted a second time, comes back as it is.
\<close>

theorem formatError_idempotent:
  "formatError (Some (errorString (formatError (Some e)))) = formatError (Some e)"
  by (simp add: formatError_spec spec_single_line_fixed spec_single_line_clean)

section \<open>Properties of the no-op logger and of the default logger\<close>

lemma NoopLogger_leveled:
  "NoopLogger_Debug w msg fs = Inr w" "NoopLogger_Info w msg fs = Inr w"
  "NoopLogger_Warn w msg fs = Inr w" "NoopLogger_Error w msg fs = Inr w"
  "NoopLogger_Fatal w msg fs = Inr w"
  by (simp_all add: NoopLogger_Debug_def NoopLogger_Info_def NoopLogger_Warn_def
      NoopLogger_Error_def NoopLogger_Fatal_def)

lemma Logger_leveled_Noop:
  "Logger_Debug w NoopLogger_ptr msg fs = Inr w" "Logger_Info w NoopLogger_ptr msg fs = Inr w"
  "Logger_Warn w NoopLogger_ptr msg fs = Inr w" "Logger_Error w NoopLogger_ptr msg fs = Inr w"
  "Logger_Fatal w NoopLogger_ptr msg fs = Inr w"
  by (simp_all add: Logger_Debug_def Logger_Info_def Logger_Warn_def Logger_Error_def
      Logger_Fatal_def NoopLogger_leveled)

text \<open>
  C7.  At the start of the process the default logger is the no-op logger, in both
  snapshots; a leveled call on it returns with the state of the process, and so the
  output, as it was, and so does each package-level function.
\<close>

theorem default_logger_at_start:
  "GetDefaultLogger process_start = NoopLogger_ptr
   \<and> GetDefaultLogger_part_000 process_start_part_000 = NoopLogger_ptr
   \<and> Logger_Debug w (GetDefaultLogger process_start) msg fs = Inr w
   \<and> Logger_Info w (GetDefaultLogger process_start) msg fs = Inr w
   \<and> Logger_Warn w (GetDefaultLogger process_start) msg fs = Inr w
   \<and> Logger_Error w (GetDefaultLogger process_start) msg fs = Inr w
   \<and> Logger_Fatal w (GetDefaultLogger process_start) msg fs = Inr w
   \<and> Logger_Debug w (GetDefaultLogger_part_000 process_start_part_000) msg fs = Inr w
   \<and> Logger_Info w (GetDefaultLogger_part_000 process_start_part_000) msg fs = Inr w
   \<and> Logger_Warn w (GetDefaultLogger_part_000 process_start_part_000) msg fs = Inr w
   \<and> Logger_Error w (GetDefaultLogger_part_000 process_start_part_000) msg fs = Inr w
   \<and> Logger_Fatal w (GetDefaultLogger_part_000 process_start_part_000) msg fs = Inr w
   \<and> Debug process_start msg fs = Inr process_start
   \<and> Info process_start msg fs = Inr process_start
   \<and> Warn process_start msg fs = Inr process_start
   \<and> Error process_start msg fs = Inr process_start
   \<and> Fatal process_start msg fs = Inr process_start
   \<and> written process_start = []"
  by (simp add: GetDefaultLogger_def GetDefaultLogger_part_000_def process_start_def
      process_start_part_000_def NewNoopLogger_def Logger_leveled_Noop
      Debug_def Info_def Warn_def Error_def Fatal_def)

text \<open>
  C3, as stated, fails: \<^verbatim>\<open>Zap\<close> of the \<^verbatim>\<open>NoopLogger\<close> in \<^verbatim>\<open>interface.go\<close>
  returns the nil handle.
\<close>

theorem NoopLogger_Zap_is_nil:
  "NoopLogger_Zap process_start = Inr (None, process_start)"
  by (simp add: NoopLogger_Zap_def)

text \<open>
  C3, amended.  On the no-op logger every leveled method returns with the state
  unchanged.  \<^verbatim>\<open>Zap\<close> of \<^verbatim>\<open>interface.go\<close> returns nil and changes nothing;
  \<^verbatim>\<open>Zap\<close> of the newer interface file returns a freshly built inert engine
  instance, which is not nil, has no enabled level and writes nothing.
\<close>

theorem NoopLogger_no_op:
  "NoopLogger_Debug w msg fs = Inr w
   \<and> NoopLogger_Info w msg fs = Inr w
   \<and> NoopLogger_Warn w msg fs = Inr w
   \<and> NoopLogger_Error w msg fs = Inr w
   \<and> NoopLogger_Fatal w msg fs = Inr w
   \<and> NoopLogger_Zap w = Inr (None, w)
   \<and> NoopLogger_Zap_NewNop w =
       Inr (Some (length (zapHeap w)),
            w\<lparr>zapHeap := zapHeap w @ [\<lparr>zap_name = [], zap_core = nopCore\<rparr>]\<rparr>)
   \<and> Core_Enabled nopCore lvl = False
   \<and> Core_Write nopCore ent = []"
  by (simp add: NoopLogger_leveled NoopLogger_Zap_def NoopLogger_Zap_NewNop_def
      zap_NewNop_def new_zap_Logger_def)

text \<open>
  \<^verbatim>\<open>SetDefaultLogger\<close> of \<^verbatim>\<open>interface.go\<close> puts the no-op logger in the
  variable when it is given nil, and never leaves nil there.
\<close>

lemma SetDefaultLogger_nil:
  "GetDefaultLogger (SetDefaultLogger w nil) = NoopLogger_ptr"
  by (simp add: GetDefaultLogger_def SetDefaultLogger_def)

lemma SetDefaultLogger_never_nil:
  "GetDefaultLogger (SetDefaultLogger w logger) \<noteq> nil"
  by (simp add: GetDefaultLogger_def SetDefaultLogger_def)

text \<open>
  C2.  \<^verbatim>\<open>SetDefaultLogger\<close> of \<^verbatim>\<open>unnamed/part_000\<close> has no test for nil: given
  nil it leaves nil in the variable, \<^verbatim>\<open>GetDefaultLogger\<close> returns nil, and a leveled
  call on what it returns panics.  The function of \<^verbatim>\<open>interface.go\<close> at the same
  input yields the no-op logger.
\<close>

theorem SetDefaultLogger_part_000_nil:
  "GetDefaultLogger_part_000 (SetDefaultLogger_part_000 process_start_part_000 nil) = nil
   \<and> Logger_Info (SetDefaultLogger_part_000 process_start_part_000 nil)
        (GetDefaultLogger_part_000 (SetDefaultLogger_part_000 process_start_part_000 nil))
        ''hello'' [] = Inl nil_dereference
   \<and> GetDefaultLogger (SetDefaultLogger process_start nil) = NoopLogger_ptr"
  by (simp add: GetDefaultLogger_part_000_def SetDefaultLogger_part_000_def
      Logger_Info_def GetDefaultLogger_def SetDefaultLogger_def)

section \<open>Properties of the concrete logger\<close>











text \<open>The leveled methods of the two snapshots are the same functions.\<close>

lemma sugar_leveled_same:
  "sugarLogger_Debug = SugarLogger_Debug" "sugarLogger_Info = SugarLogger_Info"
  "sugarLogger_Warn = SugarLogger_Warn" "sugarLogger_Error = SugarLogger_Error"
  "sugarLogger_Fatal = SugarLogger_Fatal"
  by (simp_all add: fun_eq_iff sugarLogger_Debug_def SugarLogger_Debug_def
      sugarLogger_Info_def SugarLogger_Info_def sugarLogger_Warn_def SugarLogger_Warn_def
      sugarLogger_Error_def SugarLogger_Error_def sugarLogger_Fatal_def SugarLogger_Fatal_def)

text \<open>
  C4.  On a concrete logger whose struct holds no engine handle, each of the five
  leveled methods, in both snapshots, returns normally and leaves the state of the
  process, the output included, as it was.
\<close>

theorem leveled_calls_skip_absent_engine:
  assumes "deref (sugarHeap w) l = Inr \<lparr>Log = None\<rparr>"
  shows "sugarLogger_Debug w l msg fs = Inr w
   \<and> sugarLogger_Info w l msg fs = Inr w
   \<and> sugarLogger_Warn w l msg fs = Inr w
   \<and> sugarLogger_Error w l msg fs = Inr w
   \<and> sugarLogger_Fatal w l msg fs = Inr w
   \<and> SugarLogger_Debug w l msg fs = Inr w
   \<and> SugarLogger_Info w l msg fs = Inr w
   \<and> SugarLogger_Warn w l msg fs = Inr w
   \<and> SugarLogger_Error w l msg fs = Inr w
   \<and> SugarLogger_Fatal w l msg fs = Inr w"
  using assms
  by (simp add: sugarLogger_Debug_def SugarLogger_Debug_def
      sugarLogger_Info_def SugarLogger_Info_def sugarLogger_Warn_def SugarLogger_Warn_def
      sugarLogger_Error_def SugarLogger_Error_def sugarLogger_Fatal_def SugarLogger_Fatal_def)

text \<open>The zero-value logger of \<^verbatim>\<open>TestSugarLogger_Zap\<close>, at address 0.\<close>

theorem leveled_calls_skip_absent_engine_witness:
  "deref (sugarHeap (process_start\<lparr>sugarHeap := [\<lparr>Log = None\<rparr>]\<rparr>)) (Some 0) = Inr \<lparr>Log = None\<rparr>
   \<and> sugarLogger_Fatal (process_start\<lparr>sugarHeap := [\<lparr>Log = None\<rparr>]\<rparr>) (Some 0) ''test'' []
       = Inr (process_start\<lparr>sugarHeap := [\<lparr>Log = None\<rparr>]\<rparr>)
   \<and> SugarLogger_Info (process_start\<lparr>sugarHeap := [\<lparr>Log = None\<rparr>]\<rparr>) (Some 0) ''test'' []
       = Inr (process_start\<lparr>sugarHeap := [\<lparr>Log = None\<rparr>]\<rparr>)"
proof -
  have h: "deref (sugarHeap (process_start\<lparr>sugarHeap := [\<lparr>Log = None\<rparr>]\<rparr>)) (Some 0)
           = Inr \<lparr>Log = None\<rparr>"
    by (simp add: deref_def)
  show ?thesis
    using h leveled_calls_skip_absent_engine [OF h, of "''test''" "[]"]
    by simp
qed







lemma Core_Write_With:
  "Core_Write (Core_With (ioCore sinks minLevel ctx) fs) ent =
     map (\<lambda>sink. (sink, ent\<lparr>Fields := ctx @ fs @ Fields ent\<rparr>)) sinks"
  by simp



section \<open>Properties of child loggers and of loggers in a context\<close>

lemma Logger_Zap_sugar:
  "deref (sugarHeap w) l = Inr s \<Longrightarrow> Logger_Zap w (sugarLogger_ptr l) = Inr (Log s, w)"
  by (simp add: Logger_Zap_def sugarLogger_Zap_def)

lemma Logger_Zap_Noop:
  "Logger_Zap w NoopLogger_ptr =
     Inr (Some (length (zapHeap w)),
          w\<lparr>zapHeap := zapHeap w @ [\<lparr>zap_name = [], zap_core = nopCore\<rparr>]\<rparr>)"
  by (simp add: Logger_Zap_def NoopLogger_Zap_NewNop_def zap_NewNop_def new_zap_Logger_def)

lemma NewChildLogger_absent:
  assumes "deref (sugarHeap w) l = Inr \<lparr>Log = None\<rparr>"
  shows "NewChildLogger w (sugarLogger_ptr l) prefix = Inr (NoopLogger_ptr, w)"
  using Logger_Zap_sugar [OF assms]
  by (simp add: NewChildLogger_def NewNoopLogger_def)

lemma NewChildLogger_present:
  assumes s: "deref (sugarHeap w) l = Inr \<lparr>Log = Some z\<rparr>"
    and e: "deref (zapHeap w) (Some z) = Inr e"
  shows "NewChildLogger w (sugarLogger_ptr l) prefix =
     (if prefix \<noteq> [] then
        Inr (sugarLogger_ptr (Some (length (sugarHeap w))),
             w\<lparr>zapHeap := zapHeap w @
                 [e\<lparr>zap_name := (if zap_name e = [] then prefix
                                  else zap_name e @ ''.'' @ prefix)\<rparr>],
               sugarHeap := sugarHeap w @ [\<lparr>Log = Some (length (zapHeap w))\<rparr>]\<rparr>)
      else
        Inr (sugarLogger_ptr (Some (length (sugarHeap w))),
             w\<lparr>sugarHeap := sugarHeap w @ [\<lparr>Log = Some z\<rparr>]\<rparr>))"
  using Logger_Zap_sugar [OF s] e
  by (simp add: NewChildLogger_def zap_Named_def new_zap_Logger_def new_sugarLogger_def)

lemma NewChildLogger_Noop:
  "NewChildLogger w NoopLogger_ptr prefix =
     (if prefix \<noteq> [] then
        Inr (sugarLogger_ptr (Some (length (sugarHeap w))),
             w\<lparr>zapHeap := zapHeap w @
                 [\<lparr>zap_name = [], zap_core = nopCore\<rparr>, \<lparr>zap_name = [], zap_core = nopCore\<rparr>,
                  \<lparr>zap_name = prefix, zap_core = nopCore\<rparr>],
               sugarHeap := sugarHeap w @ [\<lparr>Log = Some (length (zapHeap w) + 2)\<rparr>]\<rparr>)
      else
        Inr (sugarLogger_ptr (Some (length (sugarHeap w))),
             w\<lparr>zapHeap := zapHeap w @
                 [\<lparr>zap_name = [], zap_core = nopCore\<rparr>, \<lparr>zap_name = [], zap_core = nopCore\<rparr>],
               sugarHeap := sugarHeap w @ [\<lparr>Log = Some (length (zapHeap w) + 1)\<rparr>]\<rparr>))"
  by (simp add: NewChildLogger_def Logger_Zap_Noop zap_Named_def new_zap_Logger_def
      new_sugarLogger_def deref_def nth_append)

text \<open>
  A nil \<^verbatim>\<open>*sugarLogger\<close> inside a non-nil interface is not a logger: the test
  \<^verbatim>\<open>parent == nil\<close> is false for it and \<^verbatim>\<open>parent.Zap()\<close> dereferences it.
\<close>

lemma NewChildLogger_nil_pointer:
  "NewChildLogger w (sugarLogger_ptr None) prefix = Inl nil_dereference"
  by (simp add: NewChildLogger_def Logger_Zap_def sugarLogger_Zap_def deref_def)

lemma allocated_sugar:
  assumes "allocated w (sugarLogger_ptr l)"
  shows "deref (sugarHeap w) l = Inr \<lparr>Log = None\<rparr>
     \<or> (\<exists>z. deref (sugarHeap w) l = Inr \<lparr>Log = Some z\<rparr>
           \<and> deref (zapHeap w) (Some z) = Inr (zapHeap w ! z))"
proof (cases "deref (sugarHeap w) l")
  case (Inl stop)
  with assms show ?thesis by (simp add: allocated_def)
next
  case (Inr s)
  obtain h where s: "s = \<lparr>Log = h\<rparr>" by (cases s) simp
  show ?thesis
  proof (cases h)
    case None
    with Inr s show ?thesis by simp
  next
    case (Some z)
    with assms Inr s have "z < length (zapHeap w)" by (simp add: allocated_def)
    with Inr s Some show ?thesis by (simp add: deref_def)
  qed
qed

lemma NewChildLogger_returns:
  assumes "allocated w parent"
  shows "\<exists>r w'. NewChildLogger w parent prefix = Inr (r, w') \<and> r \<noteq> nil"
proof (cases parent)
  case nil
  then show ?thesis by (simp add: NewChildLogger_def NewNoopLogger_def)
next
  case NoopLogger_ptr
  then show ?thesis by (simp add: NewChildLogger_Noop)
next
  case (sugarLogger_ptr l)
  with assms have "allocated w (sugarLogger_ptr l)" by simp
  from allocated_sugar [OF this] show ?thesis
  proof
    assume "deref (sugarHeap w) l = Inr \<lparr>Log = None\<rparr>"
    then show ?thesis using sugarLogger_ptr by (simp add: NewChildLogger_absent)
  next
    assume "\<exists>z. deref (sugarHeap w) l = Inr \<lparr>Log = Some z\<rparr>
           \<and> deref (zapHeap w) (Some z) = Inr (zapHeap w ! z)"
    then obtain z where "deref (sugarHeap w) l = Inr \<lparr>Log = Some z\<rparr>"
      and "deref (zapHeap w) (Some z) = Inr (zapHeap w ! z)" by blast
    then show ?thesis using sugarLogger_ptr
      by (simp add: NewChildLogger_present)
  qed
qed

lemma allocated_test_world:
  "allocated test_world (sugarLogger_ptr (Some 0))"
  "allocated test_world (sugarLogger_ptr (Some 1))"
  "attached_allocated test_world (any_Logger (sugarLogger_ptr (Some 0)))"
  by (simp_all add: allocated_def attached_allocated_def deref_def test_world_def)

text \<open>
  C5, as stated, fails: \<^verbatim>\<open>With\<close> on a nil \<^verbatim>\<open>*sugarLogger\<close> returns that
  pointer as a \<^verbatim>\<open>Logger\<close>, which is not the nil interface, and with it as the parent
  \<^verbatim>\<open>NewChildLogger\<close> returns neither the no-op logger nor a child: it panics.
\<close>

theorem NewChildLogger_nil_pointer_panics:
  "sugarLogger_With test_world None [] = Inr (sugarLogger_ptr None, test_world)
   \<and> sugarLogger_ptr None \<noteq> nil
   \<and> NewChildLogger test_world (sugarLogger_ptr None) ''http'' = Inl nil_dereference"
  by (simp add: sugarLogger_With_def NewChildLogger_nil_pointer)

text \<open>
  C5, amended.  For every parent that is nil, the no-op logger or a pointer to a logger
  in the heap, \<^verbatim>\<open>NewChildLogger\<close> returns, and what it returns is not nil.  It
  returns the no-op logger, and changes nothing, when the parent is nil or is a logger
  without an engine handle.  For a parent with an engine it returns a logger at a new
  address: with a non-empty prefix its engine is a copy of the parent's with the prefix
  as a further name segment, with the empty prefix its handle is the parent's own.  A
  no-op parent of this snapshot hands out an inert engine, so its child is a concrete
  logger around an inert engine, named by the prefix if there is one.
\<close>

theorem NewChildLogger_result:
  "NewChildLogger w nil prefix = Inr (NoopLogger_ptr, w)
   \<and> (deref (sugarHeap w) l = Inr \<lparr>Log = None\<rparr> \<longrightarrow>
        NewChildLogger w (sugarLogger_ptr l) prefix = Inr (NoopLogger_ptr, w))
   \<and> (deref (sugarHeap w) l = Inr \<lparr>Log = Some z\<rparr> \<and> deref (zapHeap w) (Some z) = Inr e \<longrightarrow>
        NewChildLogger w (sugarLogger_ptr l) prefix =
          (if prefix \<noteq> [] then
             Inr (sugarLogger_ptr (Some (length (sugarHeap w))),
                  w\<lparr>zapHeap := zapHeap w @
                      [e\<lparr>zap_name := (if zap_name e = [] then prefix
                                       else zap_name e @ ''.'' @ prefix)\<rparr>],
                    sugarHeap := sugarHeap w @ [\<lparr>Log = Some (length (zapHeap w))\<rparr>]\<rparr>)
           else
             Inr (sugarLogger_ptr (Some (length (sugarHeap w))),
                  w\<lparr>sugarHeap := sugarHeap w @ [\<lparr>Log = Some z\<rparr>]\<rparr>)))
   \<and> NewChildLogger w NoopLogger_ptr prefix =
       (if prefix \<noteq> [] then
          Inr (sugarLogger_ptr (Some (length (sugarHeap w))),
               w\<lparr>zapHeap := zapHeap w @
                   [\<lparr>zap_name = [], zap_core = nopCore\<rparr>,
                    \<lparr>zap_name = [], zap_core = nopCore\<rparr>,
                    \<lparr>zap_name = prefix, zap_core = nopCore\<rparr>],
                 sugarHeap := sugarHeap w @ [\<lparr>Log = Some (length (zapHeap w) + 2)\<rparr>]\<rparr>)
        else
          Inr (sugarLogger_ptr (Some (length (sugarHeap w))),
               w\<lparr>zapHeap := zapHeap w @
                   [\<lparr>zap_name = [], zap_core = nopCore\<rparr>,
                    \<lparr>zap_name = [], zap_core = nopCore\<rparr>],
                 sugarHeap := sugarHeap w @ [\<lparr>Log = Some (length (zapHeap w) + 1)\<rparr>]\<rparr>))
   \<and> (allocated w parent \<longrightarrow>
        (\<exists>r w'. NewChildLogger w parent prefix = Inr (r, w') \<and> r \<noteq> nil))"
proof (intro conjI impI)
  assume "allocated w parent"
  then show "\<exists>r w'. NewChildLogger w parent prefix = Inr (r, w') \<and> r \<noteq> nil"
    by (rule NewChildLogger_returns)
next
  show "NewChildLogger w nil prefix = Inr (NoopLogger_ptr, w)"
    by (simp add: NewChildLogger_def NewNoopLogger_def)
next
  assume "deref (sugarHeap w) l = Inr \<lparr>Log = None\<rparr>"
  then show "NewChildLogger w (sugarLogger_ptr l) prefix = Inr (NoopLogger_ptr, w)"
    by (rule NewChildLogger_absent)
next
  assume "deref (sugarHeap w) l = Inr \<lparr>Log = Some z\<rparr> \<and> deref (zapHeap w) (Some z) = Inr e"
  then show "NewChildLogger w (sugarLogger_ptr l) prefix =
          (if prefix \<noteq> [] then
             Inr (sugarLogger_ptr (Some (length (sugarHeap w))),
                  w\<lparr>zapHeap := zapHeap w @
                      [e\<lparr>zap_name := (if zap_name e = [] then prefix
                                       else zap_name e @ ''.'' @ prefix)\<rparr>],
                    sugarHeap := sugarHeap w @ [\<lparr>Log = Some (length (zapHeap w))\<rparr>]\<rparr>)
           else
             Inr (sugarLogger_ptr (Some (length (sugarHeap w))),
                  w\<lparr>sugarHeap := sugarHeap w @ [\<lparr>Log = Some z\<rparr>]\<rparr>))"
    using NewChildLogger_present [of w l z e prefix] by blast
next
  show "NewChildLogger w NoopLogger_ptr prefix =
       (if prefix \<noteq> [] then
          Inr (sugarLogger_ptr (Some (length (sugarHeap w))),
               w\<lparr>zapHeap := zapHeap w @
                   [\<lparr>zap_name = [], zap_core = nopCore\<rparr>,
                    \<lparr>zap_name = [], zap_core = nopCore\<rparr>,
                    \<lparr>zap_name = prefix, zap_core = nopCore\<rparr>],
                 sugarHeap := sugarHeap w @ [\<lparr>Log = Some (length (zapHeap w) + 2)\<rparr>]\<rparr>)
        else
          Inr (sugarLogger_ptr (Some (length (sugarHeap w))),
               w\<lparr>zapHeap := zapHeap w @
                   [\<lparr>zap_name = [], zap_core = nopCore\<rparr>,
                    \<lparr>zap_name = [], zap_core = nopCore\<rparr>],
                 sugarHeap := sugarHeap w @ [\<lparr>Log = Some (length (zapHeap w) + 1)\<rparr>]\<rparr>))"
    by (rule NewChildLogger_Noop)
qed

text \<open>
  In \<^term>\<open>test_world\<close>: children of the zero-value logger and of the logger
  \<^verbatim>\<open>app\<close>, which becomes \<^verbatim>\<open>app.http\<close>.
\<close>

theorem NewChildLogger_result_witness:
  "deref (sugarHeap test_world) (Some 1) = Inr \<lparr>Log = None\<rparr>
   \<and> NewChildLogger test_world (sugarLogger_ptr (Some 1)) ''http'' = Inr (NoopLogger_ptr, test_world)
   \<and> deref (sugarHeap test_world) (Some 0) = Inr \<lparr>Log = Some 0\<rparr>
   \<and> deref (zapHeap test_world) (Some 0) = Inr app_engine
   \<and> NewChildLogger test_world (sugarLogger_ptr (Some 0)) ''http'' =
       Inr (sugarLogger_ptr (Some 2),
            test_world\<lparr>zapHeap := [app_engine, \<lparr>zap_name = ''app.http'', zap_core = ioCore [0] InfoLevel []\<rparr>],
              sugarHeap := [\<lparr>Log = Some 0\<rparr>, \<lparr>Log = None\<rparr>, \<lparr>Log = Some 1\<rparr>]\<rparr>)
   \<and> NewChildLogger test_world (sugarLogger_ptr (Some 0)) [] =
       Inr (sugarLogger_ptr (Some 2),
            test_world\<lparr>sugarHeap := [\<lparr>Log = Some 0\<rparr>, \<lparr>Log = None\<rparr>, \<lparr>Log = Some 0\<rparr>]\<rparr>)
   \<and> allocated test_world (sugarLogger_ptr (Some 0))
   \<and> allocated test_world (sugarLogger_ptr (Some 1))"
proof -
  have h0: "deref (sugarHeap test_world) (Some 0) = Inr \<lparr>Log = Some 0\<rparr>"
    by (simp add: deref_def test_world_def)
  have h1: "deref (zapHeap test_world) (Some 0) = Inr app_engine"
    by (simp add: deref_def test_world_def)
  have h2: "deref (sugarHeap test_world) (Some 1) = Inr \<lparr>Log = None\<rparr>"
    by (simp add: deref_def test_world_def)
  note absent = NewChildLogger_result [where w = test_world and l = "Some 1"
      and prefix = "''http''"]
  note named = NewChildLogger_result [where w = test_world and l = "Some 0" and z = 0
      and e = app_engine and prefix = "''http''"]
  note shared = NewChildLogger_result [where w = test_world and l = "Some 0" and z = 0
      and e = app_engine and prefix = "[]"]
  have a: "NewChildLogger test_world (sugarLogger_ptr (Some 1)) ''http'' = Inr (NoopLogger_ptr, test_world)"
    using absent h2 by blast
  have n: "NewChildLogger test_world (sugarLogger_ptr (Some 0)) ''http'' =
       Inr (sugarLogger_ptr (Some 2),
            test_world\<lparr>zapHeap := [app_engine, \<lparr>zap_name = ''app.http'', zap_core = ioCore [0] InfoLevel []\<rparr>],
              sugarHeap := [\<lparr>Log = Some 0\<rparr>, \<lparr>Log = None\<rparr>, \<lparr>Log = Some 1\<rparr>]\<rparr>)"
    using named h0 h1 by (simp add: test_world_def app_engine_def)
  have s: "NewChildLogger test_world (sugarLogger_ptr (Some 0)) [] =
       Inr (sugarLogger_ptr (Some 2),
            test_world\<lparr>sugarHeap := [\<lparr>Log = Some 0\<rparr>, \<lparr>Log = None\<rparr>, \<lparr>Log = Some 0\<rparr>]\<rparr>)"
    using shared h0 h1 by (simp add: test_world_def)
  from h0 h1 h2 a n s allocated_test_world show ?thesis by blast
qed

lemma LoggerFromContext_returns_logger:
  "LoggerFromContext w ctx = Inr (r, w') \<Longrightarrow> r \<noteq> nil"
  by (auto simp: LoggerFromContext_def NewNoopLogger_def
      split: sum.splits if_splits any.splits prod.splits)

lemma LoggerToContext_attaches:
  "ctx \<noteq> nil_Context \<Longrightarrow>
     LoggerToContext ctx lg = Inr (valueCtx ctx loggerCtxKey (Logger_to_any lg))
     \<and> Context_Value (valueCtx ctx loggerCtxKey (Logger_to_any lg)) loggerCtxKey
         = Inr (Logger_to_any lg)"
  by (simp add: LoggerToContext_def context_WithValue_def)

text \<open>
  Outside the loggers and contexts of a running program: a nil \<^verbatim>\<open>*sugarLogger\<close>
  inside a non-nil interface, and the nil \<^verbatim>\<open>Context\<close>.  Neither call returns.
\<close>

lemma LoggerFromContext_nil_pointer:
  "Context_Value ctx loggerCtxKey = Inr (any_Logger (sugarLogger_ptr None)) \<Longrightarrow>
     LoggerFromContext w ctx = Inl nil_dereference"
  by (simp add: LoggerFromContext_def Logger_Zap_def sugarLogger_Zap_def deref_def)

lemma LoggerFromContext_nil_Context:
  "LoggerFromContext w nil_Context = Inl nil_dereference"
  by (simp add: LoggerFromContext_def)

lemma LoggerFromContext_returns:
  assumes v: "Context_Value ctx loggerCtxKey = Inr v" and a: "attached_allocated w v"
  shows "\<exists>r w'. LoggerFromContext w ctx = Inr (r, w') \<and> r \<noteq> nil"
proof (cases v)
  case any_nil
  with v show ?thesis by (simp add: LoggerFromContext_def NewNoopLogger_def)
next
  case (any_other n)
  with v show ?thesis by (simp add: LoggerFromContext_def NewNoopLogger_def)
next
  case (any_Logger lg)
  show ?thesis
  proof (cases lg)
    case nil
    with v any_Logger show ?thesis by (simp add: LoggerFromContext_def NewNoopLogger_def)
  next
    case NoopLogger_ptr
    with v any_Logger show ?thesis by (simp add: LoggerFromContext_def Logger_Zap_Noop)
  next
    case (sugarLogger_ptr l)
    with a any_Logger have "allocated w (sugarLogger_ptr l)"
      by (simp add: attached_allocated_def)
    from allocated_sugar [OF this] show ?thesis
    proof
      assume "deref (sugarHeap w) l = Inr \<lparr>Log = None\<rparr>"
      with v any_Logger sugarLogger_ptr show ?thesis
        by (simp add: LoggerFromContext_def Logger_Zap_sugar NewNoopLogger_def)
    next
      assume "\<exists>z. deref (sugarHeap w) l = Inr \<lparr>Log = Some z\<rparr>
           \<and> deref (zapHeap w) (Some z) = Inr (zapHeap w ! z)"
      then obtain z where "deref (sugarHeap w) l = Inr \<lparr>Log = Some z\<rparr>" by blast
      with v any_Logger sugarLogger_ptr show ?thesis
        by (simp add: LoggerFromContext_def Logger_Zap_sugar)
    qed
  qed
qed

text \<open>
  C9, as stated, fails: a nil \<^verbatim>\<open>*sugarLogger\<close> can be attached to a context; it is
  present and not valid, and \<^verbatim>\<open>LoggerFromContext\<close> does not return the no-op logger
  for it but panics in \<^verbatim>\<open>l.Zap()\<close>.  On the nil \<^verbatim>\<open>Context\<close> it panics as well.
\<close>

theorem LoggerFromContext_panics:
  "LoggerToContext Background (sugarLogger_ptr None) =
     Inr (valueCtx Background loggerCtxKey (any_Logger (sugarLogger_ptr None)))
   \<and> LoggerFromContext test_world
       (valueCtx Background loggerCtxKey (any_Logger (sugarLogger_ptr None)))
     = Inl nil_dereference
   \<and> LoggerFromContext test_world nil_Context = Inl nil_dereference"
  by (simp add: LoggerToContext_def context_WithValue_def Logger_to_any_def
      LoggerFromContext_nil_pointer LoggerFromContext_nil_Context)

text \<open>
  C9, amended.  For every context that is not nil and whose value under the key is no
  logger, the nil interface, the no-op logger or a pointer to a logger in the heap,
  \<^verbatim>\<open>LoggerFromContext\<close> returns, and what it returns is not nil.  It returns the
  logger attached to the context when there is one and its \<^verbatim>\<open>Zap()\<close> is not
  nil, and changes nothing then.  It returns
  the no-op logger when the attached logger has no engine handle, when nothing, nil or a
  value that is no \<^verbatim>\<open>Logger\<close> is stored under the key.  An attached no-op logger is
  returned as it is (asking it for its handle builds an inert engine).  Whatever it
  returns is not nil.  \<^verbatim>\<open>LoggerToContext\<close> on a context stores the logger under the
  key, where \<^verbatim>\<open>Value\<close> finds it.
\<close>

theorem LoggerFromContext_result:
  "(Context_Value ctx loggerCtxKey = Inr (any_Logger (sugarLogger_ptr l))
      \<and> deref (sugarHeap w) l = Inr \<lparr>Log = Some z\<rparr> \<longrightarrow>
        LoggerFromContext w ctx = Inr (sugarLogger_ptr l, w))
   \<and> (Context_Value ctx loggerCtxKey = Inr (any_Logger (sugarLogger_ptr l))
      \<and> deref (sugarHeap w) l = Inr \<lparr>Log = None\<rparr> \<longrightarrow>
        LoggerFromContext w ctx = Inr (NoopLogger_ptr, w))
   \<and> (Context_Value ctx loggerCtxKey = Inr (any_Logger NoopLogger_ptr) \<longrightarrow>
        LoggerFromContext w ctx =
          Inr (NoopLogger_ptr,
               w\<lparr>zapHeap := zapHeap w @ [\<lparr>zap_name = [], zap_core = nopCore\<rparr>]\<rparr>))
   \<and> (Context_Value ctx loggerCtxKey = Inr (any_Logger nil) \<longrightarrow>
        LoggerFromContext w ctx = Inr (NoopLogger_ptr, w))
   \<and> (Context_Value ctx loggerCtxKey = Inr any_nil \<longrightarrow>
        LoggerFromContext w ctx = Inr (NoopLogger_ptr, w))
   \<and> (Context_Value ctx loggerCtxKey = Inr (any_other n) \<longrightarrow>
        LoggerFromContext w ctx = Inr (NoopLogger_ptr, w))
   \<and> (Context_Value ctx loggerCtxKey = Inr v \<and> attached_allocated w v \<longrightarrow>
        (\<exists>r w'. LoggerFromContext w ctx = Inr (r, w') \<and> r \<noteq> nil))
   \<and> (LoggerFromContext w ctx = Inr (r, w') \<longrightarrow> r \<noteq> nil)
   \<and> (ctx \<noteq> nil_Context \<longrightarrow>
        LoggerToContext ctx lg = Inr (valueCtx ctx loggerCtxKey (Logger_to_any lg))
        \<and> Context_Value (valueCtx ctx loggerCtxKey (Logger_to_any lg)) loggerCtxKey
            = Inr (Logger_to_any lg))"
proof (intro conjI impI)
  assume "Context_Value ctx loggerCtxKey = Inr (any_Logger (sugarLogger_ptr l))
      \<and> deref (sugarHeap w) l = Inr \<lparr>Log = Some z\<rparr>"
  then show "LoggerFromContext w ctx = Inr (sugarLogger_ptr l, w)"
    by (simp add: LoggerFromContext_def Logger_Zap_sugar)
next
  assume "Context_Value ctx loggerCtxKey = Inr (any_Logger (sugarLogger_ptr l))
      \<and> deref (sugarHeap w) l = Inr \<lparr>Log = None\<rparr>"
  then show "LoggerFromContext w ctx = Inr (NoopLogger_ptr, w)"
    by (simp add: LoggerFromContext_def Logger_Zap_sugar NewNoopLogger_def)
next
  assume "Context_Value ctx loggerCtxKey = Inr (any_Logger NoopLogger_ptr)"
  then show "LoggerFromContext w ctx =
          Inr (NoopLogger_ptr,
               w\<lparr>zapHeap := zapHeap w @ [\<lparr>zap_name = [], zap_core = nopCore\<rparr>]\<rparr>)"
    by (simp add: LoggerFromContext_def Logger_Zap_Noop)
next
  assume "Context_Value ctx loggerCtxKey = Inr (any_Logger nil)"
  then show "LoggerFromContext w ctx = Inr (NoopLogger_ptr, w)"
    by (simp add: LoggerFromContext_def NewNoopLogger_def)
next
  assume "Context_Value ctx loggerCtxKey = Inr any_nil"
  then show "LoggerFromContext w ctx = Inr (NoopLogger_ptr, w)"
    by (simp add: LoggerFromContext_def NewNoopLogger_def)
next
  assume "Context_Value ctx loggerCtxKey = Inr (any_other n)"
  then show "LoggerFromContext w ctx = Inr (NoopLogger_ptr, w)"
    by (simp add: LoggerFromContext_def NewNoopLogger_def)
next
  assume "Context_Value ctx loggerCtxKey = Inr v \<and> attached_allocated w v"
  then show "\<exists>r w'. LoggerFromContext w ctx = Inr (r, w') \<and> r \<noteq> nil"
    using LoggerFromContext_returns [of ctx v w] by blast
next
  assume "LoggerFromContext w ctx = Inr (r, w')"
  then show "r \<noteq> nil" by (rule LoggerFromContext_returns_logger)
next
  assume "ctx \<noteq> nil_Context"
  then show "LoggerToContext ctx lg = Inr (valueCtx ctx loggerCtxKey (Logger_to_any lg))"
    by (simp add: LoggerToContext_attaches)
next
  show "Context_Value (valueCtx ctx loggerCtxKey (Logger_to_any lg)) loggerCtxKey
            = Inr (Logger_to_any lg)"
    by simp
qed

text \<open>
  In \<^term>\<open>test_world\<close>: contexts holding the logger \<^verbatim>\<open>app\<close> (below a value
  of another key), the zero-value logger, a value that is no logger, nil, and nothing.
\<close>

theorem LoggerFromContext_result_witness:
  "Context_Value
       (valueCtx (valueCtx Background loggerCtxKey (any_Logger (sugarLogger_ptr (Some 0))))
          (other_key 1) (any_other 5)) loggerCtxKey
     = Inr (any_Logger (sugarLogger_ptr (Some 0)))
   \<and> deref (sugarHeap test_world) (Some 0) = Inr \<lparr>Log = Some 0\<rparr>
   \<and> LoggerFromContext test_world
       (valueCtx (valueCtx Background loggerCtxKey (any_Logger (sugarLogger_ptr (Some 0))))
          (other_key 1) (any_other 5))
     = Inr (sugarLogger_ptr (Some 0), test_world)
   \<and> Context_Value (valueCtx Background loggerCtxKey (any_Logger (sugarLogger_ptr (Some 1))))
       loggerCtxKey = Inr (any_Logger (sugarLogger_ptr (Some 1)))
   \<and> deref (sugarHeap test_world) (Some 1) = Inr \<lparr>Log = None\<rparr>
   \<and> LoggerFromContext test_world
       (valueCtx Background loggerCtxKey (any_Logger (sugarLogger_ptr (Some 1))))
     = Inr (NoopLogger_ptr, test_world)
   \<and> Context_Value Background loggerCtxKey = Inr any_nil
   \<and> LoggerFromContext test_world Background = Inr (NoopLogger_ptr, test_world)
   \<and> Context_Value (valueCtx Background loggerCtxKey (any_other 3)) loggerCtxKey
       = Inr (any_other 3)
   \<and> LoggerFromContext test_world (valueCtx Background loggerCtxKey (any_other 3))
       = Inr (NoopLogger_ptr, test_world)
   \<and> Background \<noteq> nil_Context
   \<and> LoggerToContext Background (sugarLogger_ptr (Some 0))
       = Inr (valueCtx Background loggerCtxKey (any_Logger (sugarLogger_ptr (Some 0))))
   \<and> LoggerToContext Background nil = Inr (valueCtx Background loggerCtxKey any_nil)
   \<and> LoggerFromContext test_world (valueCtx Background loggerCtxKey any_nil)
       = Inr (NoopLogger_ptr, test_world)
   \<and> attached_allocated test_world (any_Logger (sugarLogger_ptr (Some 0)))"
proof -
  let ?app = "valueCtx (valueCtx Background loggerCtxKey (any_Logger (sugarLogger_ptr (Some 0))))
          (other_key 1) (any_other 5)"
  let ?zero = "valueCtx Background loggerCtxKey (any_Logger (sugarLogger_ptr (Some 1)))"
  let ?other = "valueCtx Background loggerCtxKey (any_other 3)"
  let ?none = "valueCtx Background loggerCtxKey any_nil"
  have v0: "Context_Value ?app loggerCtxKey = Inr (any_Logger (sugarLogger_ptr (Some 0)))"
    by simp
  have h0: "deref (sugarHeap test_world) (Some 0) = Inr \<lparr>Log = Some 0\<rparr>"
    by (simp add: deref_def test_world_def)
  have v1: "Context_Value ?zero loggerCtxKey = Inr (any_Logger (sugarLogger_ptr (Some 1)))"
    by simp
  have h1: "deref (sugarHeap test_world) (Some 1) = Inr \<lparr>Log = None\<rparr>"
    by (simp add: deref_def test_world_def)
  have v2: "Context_Value Background loggerCtxKey = Inr any_nil"
    by simp
  have v3: "Context_Value ?other loggerCtxKey = Inr (any_other 3)"
    by simp
  have v4: "Context_Value ?none loggerCtxKey = Inr any_nil"
    by simp
  have b: "Background \<noteq> nil_Context"
    by simp
  have r0: "LoggerFromContext test_world ?app = Inr (sugarLogger_ptr (Some 0), test_world)"
    using LoggerFromContext_result [where w = test_world and ctx = ?app and l = "Some 0"
        and z = 0] v0 h0 by blast
  have r1: "LoggerFromContext test_world ?zero = Inr (NoopLogger_ptr, test_world)"
    using LoggerFromContext_result [where w = test_world and ctx = ?zero and l = "Some 1"]
      v1 h1 by blast
  have r2: "LoggerFromContext test_world Background = Inr (NoopLogger_ptr, test_world)"
    using LoggerFromContext_result [where w = test_world and ctx = Background] v2 by blast
  have r3: "LoggerFromContext test_world ?other = Inr (NoopLogger_ptr, test_world)"
    using LoggerFromContext_result [where w = test_world and ctx = ?other and n = 3] v3
    by blast
  have r4: "LoggerFromContext test_world ?none = Inr (NoopLogger_ptr, test_world)"
    using LoggerFromContext_result [where w = test_world and ctx = ?none] v4 by blast
  have t0: "LoggerToContext Background (sugarLogger_ptr (Some 0))
       = Inr (valueCtx Background loggerCtxKey (any_Logger (sugarLogger_ptr (Some 0))))"
    using LoggerFromContext_result [where ctx = Background and lg = "sugarLogger_ptr (Some 0)"]
      b by (simp add: Logger_to_any_def)
  have t1: "LoggerToContext Background nil = Inr (valueCtx Background loggerCtxKey any_nil)"
    using LoggerFromContext_result [where ctx = Background and lg = nil]
      b by (simp add: Logger_to_any_def)
  from v0 h0 r0 v1 h1 r1 v2 r2 v3 r3 b t0 t1 r4 allocated_test_world show ?thesis by blast
qed

end
